theory Spec2Isabelle
  imports Complex_Main
begin

section \<open>Python values\<close>

text \<open>
  The values \<open>json.loads\<close> produces: \<open>None\<close>, \<open>bool\<close>, \<open>int\<close> (unbounded),
  \<open>float\<close>, \<open>str\<close>, \<open>list\<close> and \<open>dict\<close>. A \<open>dict\<close> is an association list in
  insertion order; its keys are distinct. A float is kept as the rational it denotes or
  as one of the three special values the decoder accepts (\<open>Infinity\<close>, \<open>-Infinity\<close>,
  \<open>NaN\<close>); \<open>-0.0\<close> and \<open>0.0\<close> are both \<open>Finite 0\<close>, they are equally false.
  Characters are the 8-bit characters of \<open>string\<close>, read as the code points below 256.
  Whether a text can be encoded, which depends on the code points beyond them, is taken
  from a parameter where the program depends on it.
\<close>

datatype pyfloat = Finite rat | PosInf | NegInf | NaN

datatype json =
    JNull
  | JBool bool
  | JInt int
  | JFloat pyfloat
  | JString string
  | JArray "json list"
  | JObject "(string \<times> json) list"

text \<open>Exceptions, all of them subclasses of \<open>Exception\<close>. \<open>Exception\<close> itself stands
  for whatever the database driver or the JSON decoder raises, with its message.\<close>

datatype exn =
    KeyError string
  | AttributeError string
  | TypeError string
  | UnicodeEncodeError string
  | Exception string

definition apos :: char where
  "apos = CHR 0x27"

definition dquote :: char where
  "dquote = CHR 0x22"

definition backslash :: char where
  "backslash = CHR 0x5C"

definition quoted :: "string \<Rightarrow> string" where
  "quoted s = apos # s @ [apos]"

text \<open>
  \<open>repr(s)\<close> of a string: between apostrophes, or between double quotes when the string
  holds an apostrophe and no double quote; the quote character and the backslash are
  escaped, tab, newline and carriage return are written \<open>\t\<close>, \<open>\n\<close>, \<open>\r\<close>, and the
  other characters that are not printable are written \<open>\xhh\<close>. Below 256 the printable
  characters are 32 to 126 and 161 to 255 without 173.
\<close>

definition hex_digit :: "nat \<Rightarrow> char" where
  "hex_digit d = ''0123456789abcdef'' ! d"

definition printable :: "char \<Rightarrow> bool" where
  "printable c = (let n = (of_char c :: nat) in (32 \<le> n \<and> n < 127) \<or> (161 \<le> n \<and> n \<noteq> 173))"

definition repr_char :: "char \<Rightarrow> char \<Rightarrow> string" where
  "repr_char q c =
     (if c = q \<or> c = backslash then [backslash, c]
      else if c = CHR 0x09 then [backslash, CHR ''t'']
      else if c = CHR 0x0A then [backslash, CHR ''n'']
      else if c = CHR 0x0D then [backslash, CHR ''r'']
      else if printable c then [c]
      else [backslash, CHR ''x'', hex_digit (of_char c div 16), hex_digit (of_char c mod 16)])"

definition py_repr :: "string \<Rightarrow> string" where
  "py_repr s =
     (let q = (if apos \<in> set s \<and> dquote \<notin> set s then dquote else apos)
      in q # concat (map (repr_char q) s) @ [q])"

text \<open>\<open>str(e)\<close>: the message; for a \<open>KeyError\<close> the \<open>repr\<close> of the key.\<close>

fun exn_str :: "exn \<Rightarrow> string" where
  "exn_str (KeyError k) = py_repr k"
| "exn_str (AttributeError m) = m"
| "exn_str (TypeError m) = m"
| "exn_str (UnicodeEncodeError m) = m"
| "exn_str (Exception m) = m"

text \<open>Truth value testing, as \<open>if not x\<close> and \<open>if x\<close> perform it.\<close>

fun truthy :: "json \<Rightarrow> bool" where
  "truthy JNull = False"
| "truthy (JBool b) = b"
| "truthy (JInt i) = (i \<noteq> 0)"
| "truthy (JFloat f) = (f \<noteq> Finite 0)"
| "truthy (JString s) = (s \<noteq> [])"
| "truthy (JArray xs) = (xs \<noteq> [])"
| "truthy (JObject kvs) = (kvs \<noteq> [])"

fun type_name :: "json \<Rightarrow> string" where
  "type_name JNull = ''NoneType''"
| "type_name (JBool b) = ''bool''"
| "type_name (JInt i) = ''int''"
| "type_name (JFloat f) = ''float''"
| "type_name (JString s) = ''str''"
| "type_name (JArray xs) = ''list''"
| "type_name (JObject kvs) = ''dict''"

text \<open>\<open>x.get(k)\<close>: only a \<open>dict\<close> has the method; a missing key gives \<open>None\<close>.\<close>

fun dict_get :: "json \<Rightarrow> string \<Rightarrow> exn + json" where
  "dict_get (JObject kvs) k = Inr (case map_of kvs k of None \<Rightarrow> JNull | Some v \<Rightarrow> v)"
| "dict_get v k =
     Inl (AttributeError (quoted (type_name v) @ '' object has no attribute '' @ quoted ''get''))"

definition digit_char :: "nat \<Rightarrow> char" where
  "digit_char d = ''0123456789'' ! d"

function str_nat :: "nat \<Rightarrow> string" where
  "str_nat n = (if n < 10 then [digit_char n] else str_nat (n div 10) @ [digit_char (n mod 10)])"
  by pat_completeness auto
termination
  by (relation "measure id") auto

declare str_nat.simps [simp del]

definition str_int :: "int \<Rightarrow> string" where
  "str_int i = (if i < 0 then CHR ''-'' # str_nat (nat (- i)) else str_nat (nat i))"

text \<open>
  \<open>str(x)\<close>, which is what an f-string field \<open>{x}\<close> inserts. A string is inserted as
  it is. The text of a float, a list or a dict is taken from the parameter \<open>r\<close>.
\<close>

fun py_str :: "(json \<Rightarrow> string) \<Rightarrow> json \<Rightarrow> string" where
  "py_str r (JString s) = s"
| "py_str r JNull = ''None''"
| "py_str r (JBool b) = (if b then ''True'' else ''False'')"
| "py_str r (JInt i) = str_int i"
| "py_str r v = r v"

section \<open>Regular expressions of the connection-string parser\<close>

text \<open>
  The four patterns use literal text, the classes \<open>[^c]\<close> and \<open>\d\<close>, and groups of the
  form \<open>(class+)\<close>. \<open>re.search\<close> tries each start position from the left; a \<open>+\<close> is
  greedy and gives characters back one by one. The result holds the groups in order.
\<close>

datatype cclass = NotChar char | Digit

datatype rx = Lit string | Group cclass

fun in_class :: "cclass \<Rightarrow> char \<Rightarrow> bool" where
  "in_class (NotChar c) x = (x \<noteq> c)"
| "in_class Digit x = (x \<in> set ''0123456789'')"

fun first_some :: "'a option list \<Rightarrow> 'a option" where
  "first_some [] = None"
| "first_some (None # xs) = first_some xs"
| "first_some (Some x # xs) = Some x"

fun match_here :: "rx list \<Rightarrow> string \<Rightarrow> string list option" where
  "match_here [] s = Some []"
| "match_here (Lit l # ps) s =
     (if take (length l) s = l then match_here ps (drop (length l) s) else None)"
| "match_here (Group c # ps) s =
     first_some (map (\<lambda>n. map_option ((#) (take n s)) (match_here ps (drop n s)))
                     (rev [1..<Suc (length (takeWhile (in_class c) s))]))"

fun re_search :: "rx list \<Rightarrow> string \<Rightarrow> string list option" where
  "re_search p [] = match_here p []"
| "re_search p (c # s) =
     (case match_here p (c # s) of Some g \<Rightarrow> Some g | None \<Rightarrow> re_search p s)"

text \<open>\<open>m.group(i)\<close> of a match, \<open>i\<close> from 1.\<close>

definition group :: "string list option \<Rightarrow> nat \<Rightarrow> string" where
  "group m i = the m ! (i - 1)"

definition server_rx :: "rx list" where
  "server_rx = [Lit ''Server=tcp:'', Group (NotChar CHR '',''), Lit '','', Group Digit]"

definition db_rx :: "rx list" where
  "db_rx = [Lit ''Initial Catalog='', Group (NotChar CHR '';'')]"

definition user_rx :: "rx list" where
  "user_rx = [Lit ''User ID='', Group (NotChar CHR '';'')]"

definition pwd_rx :: "rx list" where
  "pwd_rx = [Lit ''Password='', Group (NotChar CHR '';'')]"

text \<open>\<open>int(s)\<close> on a string of decimal digits. The interpreter's limit on the number of
  digits is not modelled.\<close>

definition digit_val :: "char \<Rightarrow> int" where
  "digit_val c = int (of_char c) - 48"

definition int_of_digits :: "string \<Rightarrow> int" where
  "int_of_digits s = foldl (\<lambda>a c. 10 * a + digit_val c) 0 s"

section \<open>The HTTP trigger\<close>

text \<open>The keyword arguments of \<open>pymssql.connect\<close>.\<close>

record conn_args =
  server :: string
  port :: int
  user :: string
  password :: string
  database :: string
  timeout :: nat
  login_timeout :: nat

text \<open>
  What the function does to the outside, in order: log records, the read of the
  environment, calls to the database driver with how each ended (\<open>None\<close>: it returned,
  \<open>Some e\<close>: it raised \<open>e\<close>), and sleeps.
\<close>

datatype level = INFO | WARNING | ERROR

datatype db_call =
    Connect conn_args
  | Cursor
  | Execute string json
  | Commit
  | Close

datatype event =
    Log level string
  | ReadEnv string
  | Call db_call "exn option"
  | Sleep rat

text \<open>How a call ends: an HTTP response, an exception that leaves the function, or the
  end of the function body (\<open>None\<close> is returned).\<close>

datatype result =
    Response nat string
  | Raised exn
  | ReturnedNone

text \<open>The request, as far as the function reads it: what \<open>req.get_json()\<close> returns,
  \<open>None\<close> when it raises.\<close>

datatype http_request = HttpRequest (get_json: "json option")

text \<open>The database, as the function sees it: whether the call made in attempt \<open>n\<close>
  (counted from 0) returns or raises.\<close>

type_synonym store = "nat \<Rightarrow> db_call \<Rightarrow> exn option"

definition max_retries :: nat where
  "max_retries = 3"

definition retry_delay :: rat where
  "retry_delay = 1 / 2"

definition insert_sql :: string where
  "insert_sql = ''INSERT INTO dbo.Tasks (Payload) VALUES (%s)''"

text \<open>Statements in sequence: the first call that raises ends the sequence.\<close>

fun run_calls :: "(db_call \<Rightarrow> exn option) \<Rightarrow> db_call list \<Rightarrow> exn option \<times> event list" where
  "run_calls db [] = (None, [])"
| "run_calls db (c # cs) =
     (case db c of
        Some e \<Rightarrow> (Some e, [Call c (Some e)])
      | None \<Rightarrow> (case run_calls db cs of (r, tr) \<Rightarrow> (r, Call c None # tr)))"

text \<open>The database calls of the \<open>try\<close> block of one attempt.\<close>

definition db_calls :: "(db_call \<Rightarrow> exn option) \<Rightarrow> conn_args \<Rightarrow> json \<Rightarrow> exn option \<times> event list" where
  "db_calls db args task_text =
     run_calls db [Connect args, Cursor, Execute insert_sql task_text, Commit, Close]"

text \<open>
  The \<open>try\<close> block of one attempt: the database calls, the log record of the success and
  the construction of the response, which is inside the block as well.
  \<open>func.HttpResponse\<close> encodes its body and raises when it cannot: \<open>hr body\<close> tells
  whether it returns (\<open>None\<close>) or raises for this body. The block ends with the response
  or with the exception that left it.
\<close>

definition try_block ::
  "(json \<Rightarrow> string) \<Rightarrow> (string \<Rightarrow> exn option) \<Rightarrow> (db_call \<Rightarrow> exn option) \<Rightarrow> conn_args \<Rightarrow> json \<Rightarrow> nat
     \<Rightarrow> (exn + result) \<times> event list" where
  "try_block r hr db args task_text attempt =
     (case db_calls db args task_text of
        (Some e, tr) \<Rightarrow> (Inl e, tr)
      | (None, tr) \<Rightarrow>
          (case hr (''Task added: '' @ py_str r task_text) of
             Some e \<Rightarrow>
               (Inl e,
                tr @ [Log INFO (''Task inserted successfully (attempt '' @ str_nat (attempt + 1) @ '')'')])
           | None \<Rightarrow>
               (Inr (Response 200 (''Task added: '' @ py_str r task_text)),
                tr @ [Log INFO (''Task inserted successfully (attempt '' @ str_nat (attempt + 1) @ '')'')])))"

text \<open>
  The loop \<open>for attempt in range(max_retries)\<close>, from \<open>attempt\<close> on. The \<open>except\<close>
  clause catches whatever left the \<open>try\<close> block. The log calls, the sleep, the rendering
  of the payload and the construction of the responses outside the \<open>try\<close> block are
  taken to return.
\<close>

function retry_loop ::
  "(json \<Rightarrow> string) \<Rightarrow> (string \<Rightarrow> exn option) \<Rightarrow> store \<Rightarrow> conn_args \<Rightarrow> json \<Rightarrow> nat
     \<Rightarrow> result \<times> event list" where
  "retry_loop r hr st args task_text attempt =
     (if attempt < max_retries then
        (case try_block r hr (st attempt) args task_text attempt of
           (Inr res, tr) \<Rightarrow> (res, tr)
         | (Inl e, tr) \<Rightarrow>
             (if attempt < max_retries - 1 then
                (case retry_loop r hr st args task_text (attempt + 1) of
                   (res, tr') \<Rightarrow>
                     (res,
                      tr @ [Log WARNING (''Database connection attempt '' @ str_nat (attempt + 1)
                                          @ '' failed: '' @ exn_str e),
                            Sleep (retry_delay * of_nat (attempt + 1))] @ tr'))
              else
                (Response 503 (''Database connection failed after '' @ str_nat max_retries
                               @ '' attempts: '' @ exn_str e),
                 tr @ [Log WARNING (''Database connection attempt '' @ str_nat (attempt + 1)
                                     @ '' failed: '' @ exn_str e),
                       Log ERROR (''All '' @ str_nat max_retries @ '' connection attempts failed'')])))
      else (ReturnedNone, []))"
  by pat_completeness auto
termination
  by (relation "measure (\<lambda>(r, hr, st, args, task_text, attempt). max_retries - attempt)") auto

declare retry_loop.simps [simp del]

definition env_key :: string where
  "env_key = ''SqlConnectionString''"

definition HttpTrigger_main ::
  "(json \<Rightarrow> string) \<Rightarrow> (string \<Rightarrow> exn option) \<Rightarrow> http_request \<Rightarrow> (string \<rightharpoonup> string) \<Rightarrow> store
     \<Rightarrow> result \<times> event list" where
  "HttpTrigger_main r hr req environ st =
     (let received = Log INFO ''HTTP trigger received a request.'' in
      case get_json req of
        None \<Rightarrow> (Response 400 ''Invalid JSON'', [received])
      | Some req_body \<Rightarrow>
          (case dict_get req_body ''task'' of
             Inl e \<Rightarrow> (Raised e, [received])
           | Inr task_text \<Rightarrow>
               if \<not> truthy task_text then
                 (Response 400 (''Missing '' @ quoted ''task''), [received])
               else
                 (case environ env_key of
                    None \<Rightarrow> (Raised (KeyError env_key), [received, ReadEnv env_key])
                  | Some conn_str \<Rightarrow>
                      let server_match = re_search server_rx conn_str;
                          db_match = re_search db_rx conn_str;
                          user_match = re_search user_rx conn_str;
                          pwd_match = re_search pwd_rx conn_str
                      in if \<not> (server_match \<noteq> None \<and> db_match \<noteq> None
                                \<and> user_match \<noteq> None \<and> pwd_match \<noteq> None) then
                           (Response 500 ''Invalid connection string format'',
                            [received, ReadEnv env_key])
                         else
                           (case retry_loop r hr st
                                   \<lparr>server = group server_match 1,
                                    port = int_of_digits (group server_match 2),
                                    user = group user_match 1,
                                    password = group pwd_match 1,
                                    database = group db_match 1,
                                    timeout = 10,
                                    login_timeout = 10\<rparr>
                                   task_text 0 of
                              (res, tr) \<Rightarrow> (res, [received, ReadEnv env_key] @ tr)))))"

text \<open>Whether all four patterns are found in the connection string, and the arguments
  the function then connects with.\<close>

definition parsable :: "string \<Rightarrow> bool" where
  "parsable conn_str =
     (re_search server_rx conn_str \<noteq> None \<and> re_search db_rx conn_str \<noteq> None
      \<and> re_search user_rx conn_str \<noteq> None \<and> re_search pwd_rx conn_str \<noteq> None)"

definition descriptor :: "string \<Rightarrow> conn_args" where
  "descriptor conn_str =
     \<lparr>server = group (re_search server_rx conn_str) 1,
      port = int_of_digits (group (re_search server_rx conn_str) 2),
      user = group (re_search user_rx conn_str) 1,
      password = group (re_search pwd_rx conn_str) 1,
      database = group (re_search db_rx conn_str) 1,
      timeout = 10,
      login_timeout = 10\<rparr>"

definition received :: event where
  "received = Log INFO ''HTTP trigger received a request.''"

subsection \<open>Observations on a trace\<close>

text \<open>An attempt is a call of \<open>pymssql.connect\<close>, whether it returns or raises.\<close>

fun is_attempt :: "event \<Rightarrow> bool" where
  "is_attempt (Call (Connect a) x) = True"
| "is_attempt e = False"

definition attempts :: "event list \<Rightarrow> nat" where
  "attempts tr = length (filter is_attempt tr)"

text \<open>A connection is opened by a \<open>connect\<close> that returns, and closed by a call of
  \<open>close\<close>.\<close>

fun opened :: "event \<Rightarrow> bool" where
  "opened (Call (Connect a) None) = True"
| "opened e = False"

fun closed :: "event \<Rightarrow> bool" where
  "closed (Call Close x) = True"
| "closed e = False"

text \<open>The attempts and the sleeps of a trace, in order.\<close>

datatype step = Attempt | Wait rat

fun steps :: "event list \<Rightarrow> step list" where
  "steps [] = []"
| "steps (Call (Connect a) x # tr) = Attempt # steps tr"
| "steps (Sleep d # tr) = Wait d # steps tr"
| "steps (e # tr) = steps tr"


text \<open>The exception with which the database calls of attempt \<open>n\<close> end, if they do:
  \<open>None\<close> means that the row of attempt \<open>n\<close> is inserted and committed.\<close>

definition attempt_error :: "store \<Rightarrow> conn_args \<Rightarrow> json \<Rightarrow> nat \<Rightarrow> exn option" where
  "attempt_error st args task_text n = fst (db_calls (st n) args task_text)"

text \<open>The exception that leaves the \<open>try\<close> block of attempt \<open>n\<close>, if one does: that of
  the database calls, or else that of the construction of the response.\<close>

definition try_error ::
  "(json \<Rightarrow> string) \<Rightarrow> (string \<Rightarrow> exn option) \<Rightarrow> store \<Rightarrow> conn_args \<Rightarrow> json \<Rightarrow> nat \<Rightarrow> exn option" where
  "try_error r hr st args task_text n =
     (case attempt_error st args task_text n of
        Some e \<Rightarrow> Some e
      | None \<Rightarrow> hr (''Task added: '' @ py_str r task_text))"

section \<open>The SQL trigger\<close>

text \<open>Iteration as a \<open>for\<close> loop performs it: a list gives its elements, a dict its
  keys, a string its characters; the other values are not iterable.\<close>

fun py_iter :: "json \<Rightarrow> exn + json list" where
  "py_iter (JArray xs) = Inr xs"
| "py_iter (JObject kvs) = Inr (map (\<lambda>kv. JString (fst kv)) kvs)"
| "py_iter (JString s) = Inr (map (\<lambda>c. JString [c]) s)"
| "py_iter v = Inl (TypeError (quoted (type_name v) @ '' object is not iterable''))"

text \<open>The body of \<open>for item in changes_list\<close>: the three \<open>get\<close> calls in the order of the
  f-string, then the log record.\<close>

fun log_items :: "(json \<Rightarrow> string) \<Rightarrow> json list \<Rightarrow> exn option \<times> event list" where
  "log_items r [] = (None, [])"
| "log_items r (item # items) =
     (case dict_get item ''Id'' of
        Inl e \<Rightarrow> (Some e, [])
      | Inr i \<Rightarrow>
          (case dict_get item ''Payload'' of
             Inl e \<Rightarrow> (Some e, [])
           | Inr p \<Rightarrow>
               (case dict_get item ''Processed'' of
                  Inl e \<Rightarrow> (Some e, [])
                | Inr d \<Rightarrow>
                    (case log_items r items of
                       (x, tr) \<Rightarrow>
                         (x, Log INFO (''SQL Trigger fired: Id='' @ py_str r i
                                        @ '', Payload='' @ py_str r p
                                        @ '', Processed='' @ py_str r d) # tr)))))"

text \<open>The \<open>try\<close> block; \<open>loads\<close> is \<open>json.loads\<close>.\<close>

definition sql_try_block ::
  "(string \<Rightarrow> exn + json) \<Rightarrow> (json \<Rightarrow> string) \<Rightarrow> string \<Rightarrow> exn option \<times> event list" where
  "sql_try_block loads r changes =
     (case loads changes of
        Inl e \<Rightarrow> (Some e, [])
      | Inr changes_list \<Rightarrow>
          if truthy changes_list then
            (case py_iter changes_list of
               Inl e \<Rightarrow> (Some e, [])
             | Inr items \<Rightarrow> log_items r items)
          else (None, [Log INFO ''SQL Trigger fired but no changes detected.'']))"

definition SqlTriggerBinding_main ::
  "(string \<Rightarrow> exn + json) \<Rightarrow> (json \<Rightarrow> string) \<Rightarrow> string \<Rightarrow> result \<times> event list" where
  "SqlTriggerBinding_main loads r changes =
     (case sql_try_block loads r changes of
        (None, tr) \<Rightarrow> (ReturnedNone, Log INFO ''SQL Trigger fired.'' # tr)
      | (Some e, tr) \<Rightarrow>
          (ReturnedNone,
           Log INFO ''SQL Trigger fired.'' # tr
             @ [Log ERROR (''Error parsing SQL trigger input: '' @ exn_str e),
                Log ERROR (''Raw content: '' @ changes)]))"

text \<open>The log record of one change record.\<close>

definition record_line :: "(json \<Rightarrow> string) \<Rightarrow> json \<Rightarrow> event" where
  "record_line r item =
     (case (dict_get item ''Id'', dict_get item ''Payload'', dict_get item ''Processed'') of
        (Inr i, Inr p, Inr d) \<Rightarrow>
          Log INFO (''SQL Trigger fired: Id='' @ py_str r i @ '', Payload='' @ py_str r p
                    @ '', Processed='' @ py_str r d)
      | _ \<Rightarrow> Log INFO [])"

fun is_object :: "json \<Rightarrow> bool" where
  "is_object (JObject kvs) = True"
| "is_object v = False"

fun is_array :: "json \<Rightarrow> bool" where
  "is_array (JArray xs) = True"
| "is_array v = False"

text \<open>
  The exception that ends the loop over a true value that is not an array of objects:
  \<open>get\<close> fails on the first element that is not an object, on the first key of a dict and
  on the first character of a string, and the other values cannot be iterated over.
\<close>

definition no_attribute_get :: "string \<Rightarrow> exn" where
  "no_attribute_get tn =
     AttributeError (quoted tn @ '' object has no attribute '' @ quoted ''get'')"

fun malformed_error :: "json \<Rightarrow> exn" where
  "malformed_error (JArray items) = no_attribute_get (type_name (hd (dropWhile is_object items)))"
| "malformed_error (JObject kvs) = no_attribute_get ''str''"
| "malformed_error (JString s) = no_attribute_get ''str''"
| "malformed_error v = TypeError (quoted (type_name v) @ '' object is not iterable'')"

section \<open>Sample inputs\<close>

definition sample_conn_str :: string where
  "sample_conn_str =
     ''Server=tcp:db.example.net,1433;Initial Catalog=tasks;User ID=app;Password=secret;''"

definition sample_request :: http_request where
  "sample_request = HttpRequest (Some (JObject [(''task'', JString ''do something'')]))"

definition sample_environ :: "string \<rightharpoonup> string" where
  "sample_environ = [env_key \<mapsto> sample_conn_str]"

definition store_up :: store where
  "store_up n c = None"

definition store_down :: store where
  "store_down n c = (case c of Connect a \<Rightarrow> Some (Exception (''down '' @ str_nat n)) | _ \<Rightarrow> None)"

definition store_busy_twice :: store where
  "store_busy_twice n c =
     (if n < 2 then (case c of Execute q p \<Rightarrow> Some (Exception ''busy'') | _ \<Rightarrow> None) else None)"

definition store_execute_fails :: store where
  "store_execute_fails n c = (case c of Execute q p \<Rightarrow> Some (Exception ''deadlock'') | _ \<Rightarrow> None)"

definition no_repr :: "json \<Rightarrow> string" where
  "no_repr v = []"

text \<open>A constructor of responses that accepts every body.\<close>

definition encodes_all :: "string \<Rightarrow> exn option" where
  "encodes_all body = None"





definition conn_str_without_user :: string where
  "conn_str_without_user =
     ''Server=tcp:db.example.net,1433;Initial Catalog=tasks;Password=secret;''"

definition other_request :: http_request where
  "other_request =
     HttpRequest (Some (JObject [(''task'', JString ''x); DROP TABLE dbo.Tasks; --'')]))"

definition sample_loads :: "string \<Rightarrow> exn + json" where
  \<open>sample_loads s =
     (if s = ''[]'' then Inr (JArray [])
      else if s = ''[{"Id": 1, "Payload": "do something", "Processed": false}, {"Id": 2}]'' then
        Inr (JArray [JObject [(''Id'', JInt 1), (''Payload'', JString ''do something''),
                              (''Processed'', JBool False)],
                     JObject [(''Id'', JInt 2)]])
      else if s = ''[{"Id": 1}, 7]'' then Inr (JArray [JObject [(''Id'', JInt 1)], JInt 7])
      else if s = ''null'' then Inr JNull
      else if s = ''{"Id": 1}'' then Inr (JObject [(''Id'', JInt 1)])
      else if s = ''7'' then Inr (JInt 7)
      else Inl (Exception ''Expecting value: line 1 column 1 (char 0)''))\<close>

section \<open>Properties of the HTTP trigger\<close>

subsection \<open>Auxiliary facts\<close>

lemma str_nat_1: "str_nat (Suc 0) = ''1''"
  by (simp add: str_nat.simps digit_char_def)

lemma str_nat_2: "str_nat 2 = ''2''"
  by (simp add: str_nat.simps digit_char_def)

lemma str_nat_3: "str_nat 3 = ''3''"
  by (simp add: str_nat.simps digit_char_def)

lemma py_repr_env_key: "py_repr env_key = quoted ''SqlConnectionString''"
  by code_simp

lemma py_repr_apostrophe: "py_repr (''it'' @ [apos] @ ''s'') = dquote # ''it'' @ [apos] @ ''s'' @ [dquote]"
  by code_simp

lemma py_repr_escapes:
  "py_repr [CHR ''a'', backslash, CHR 0x0A, CHR 0x1B, apos, dquote] =
     apos # ''a'' @ [backslash, backslash] @ [backslash, CHR ''n''] @ backslash # ''x1b''
       @ [backslash, apos] @ [dquote, apos]"
  by code_simp

lemma descriptor_sample:
  "descriptor sample_conn_str =
     \<lparr>server = ''db.example.net'', port = 1433, user = ''app'', password = ''secret'',
      database = ''tasks'', timeout = 10, login_timeout = 10\<rparr>"
  by code_simp

lemma re_search_later_start:
  "re_search server_rx ''Server=tcp:a,x;Server=tcp:b,50;'' = Some [''b'', ''50'']"
  by code_simp

lemma db_calls_trace:
  "\<exists>x tl. snd (db_calls db a t) = Call (Connect a) x # tl
     \<and> filter is_attempt tl = [] \<and> steps tl = []
     \<and> (\<forall>q p y. Call (Execute q p) y \<in> set tl \<longrightarrow> q = insert_sql \<and> p = t)"
  by (auto simp: db_calls_def split: option.splits)

lemma steps_append: "steps (xs @ ys) = steps xs @ steps ys"
  by (induction xs rule: steps.induct) auto

lemma attempts_append: "attempts (xs @ ys) = attempts xs + attempts ys"
  by (simp add: attempts_def)

lemma attempts_Nil: "attempts [] = 0"
  by (simp add: attempts_def)

lemma attempts_Cons: "attempts (e # tr) = (if is_attempt e then 1 else 0) + attempts tr"
  by (simp add: attempts_def)

lemma try_block_snd:
  "snd (try_block r hr db a t n) =
     snd (db_calls db a t)
       @ (if fst (db_calls db a t) = None
          then [Log INFO (''Task inserted successfully (attempt '' @ str_nat (n + 1) @ '')'')]
          else [])"
  by (cases "db_calls db a t") (auto simp: try_block_def split: option.splits)

lemma try_block_trace:
  "\<exists>x tl. snd (try_block r hr db a t n) = Call (Connect a) x # tl
     \<and> filter is_attempt tl = [] \<and> steps tl = []
     \<and> (\<forall>q p y. Call (Execute q p) y \<in> set tl \<longrightarrow> q = insert_sql \<and> p = t)"
  using db_calls_trace [of db a t] by (auto simp: try_block_snd steps_append)

lemma attempts_try_block: "attempts (snd (try_block r hr db a t n)) = 1"
  using try_block_trace [of r hr db a t n] by (auto simp: attempts_def)

lemma steps_try_block: "steps (snd (try_block r hr db a t n)) = [Attempt]"
  using try_block_trace [of r hr db a t n] by auto

lemma try_block_fst:
  "fst (try_block r hr (st n) a t n) =
     (case try_error r hr st a t n of
        Some e \<Rightarrow> Inl e
      | None \<Rightarrow> Inr (Response 200 (''Task added: '' @ py_str r t)))"
  by (cases "db_calls (st n) a t")
    (auto simp: try_block_def try_error_def attempt_error_def split: option.splits)

lemma try_error_db: "attempt_error st a t n = Some e \<Longrightarrow> try_error r hr st a t n = Some e"
  by (simp add: try_error_def)

lemma try_error_built:
  "hr (''Task added: '' @ py_str r t) = None \<Longrightarrow> try_error r hr st a t n = attempt_error st a t n"
  by (simp add: try_error_def split: option.splits)

lemma attempt_error_None_iff:
  "attempt_error st a t n = None \<longleftrightarrow>
     st n (Connect a) = None \<and> st n Cursor = None \<and> st n (Execute insert_sql t) = None
     \<and> st n Commit = None \<and> st n Close = None"
  by (auto simp: attempt_error_def db_calls_def split: option.splits prod.splits)

lemma retry_loop_ok:
  assumes "attempt < max_retries" and "try_error r hr st a t attempt = None"
  shows "retry_loop r hr st a t attempt =
           (Response 200 (''Task added: '' @ py_str r t),
            snd (try_block r hr (st attempt) a t attempt))"
  using assms try_block_fst [of r hr st attempt a t]
  by (subst retry_loop.simps) (auto split: prod.splits sum.splits)

lemma retry_loop_last:
  assumes "attempt < max_retries" and "\<not> attempt < max_retries - 1"
    and "try_error r hr st a t attempt = Some e"
  shows "retry_loop r hr st a t attempt =
           (Response 503 (''Database connection failed after '' @ str_nat max_retries
                          @ '' attempts: '' @ exn_str e),
            snd (try_block r hr (st attempt) a t attempt)
              @ [Log WARNING (''Database connection attempt '' @ str_nat (attempt + 1)
                              @ '' failed: '' @ exn_str e),
                 Log ERROR (''All '' @ str_nat max_retries @ '' connection attempts failed'')])"
  using assms try_block_fst [of r hr st attempt a t]
  by (subst retry_loop.simps) (auto split: prod.splits sum.splits)

lemma retry_loop_retry:
  assumes "attempt < max_retries - 1" and "try_error r hr st a t attempt = Some e"
  shows "retry_loop r hr st a t attempt =
           (fst (retry_loop r hr st a t (attempt + 1)),
            snd (try_block r hr (st attempt) a t attempt)
              @ [Log WARNING (''Database connection attempt '' @ str_nat (attempt + 1)
                              @ '' failed: '' @ exn_str e),
                 Sleep (retry_delay * of_nat (attempt + 1))]
              @ snd (retry_loop r hr st a t (attempt + 1)))"
  using assms try_block_fst [of r hr st attempt a t]
  by (subst retry_loop.simps) (auto split: prod.splits sum.splits)

lemma main_valid:
  assumes "get_json req = Some body" and "dict_get body ''task'' = Inr t" and "truthy t"
    and "environ env_key = Some cs" and "parsable cs"
  shows "HttpTrigger_main r hr req environ st =
           (fst (retry_loop r hr st (descriptor cs) t 0),
            [received, ReadEnv env_key] @ snd (retry_loop r hr st (descriptor cs) t 0))"
  using assms
  by (auto simp: HttpTrigger_main_def parsable_def descriptor_def received_def Let_def split: prod.splits)

lemma loop_ok_0:
  assumes "try_error r hr st a t 0 = None"
  shows "retry_loop r hr st a t 0 =
           (Response 200 (''Task added: '' @ py_str r t), snd (try_block r hr (st 0) a t 0))"
  using retry_loop_ok [of 0 r hr st a t] assms by (simp add: max_retries_def)

lemma loop_ok_1:
  assumes "try_error r hr st a t (Suc 0) = None"
  shows "retry_loop r hr st a t (Suc 0) =
           (Response 200 (''Task added: '' @ py_str r t),
            snd (try_block r hr (st (Suc 0)) a t (Suc 0)))"
  using retry_loop_ok [of "Suc 0" r hr st a t] assms by (simp add: max_retries_def)

lemma loop_ok_2:
  assumes "try_error r hr st a t 2 = None"
  shows "retry_loop r hr st a t 2 =
           (Response 200 (''Task added: '' @ py_str r t), snd (try_block r hr (st 2) a t 2))"
  using retry_loop_ok [of 2 r hr st a t] assms by (simp add: max_retries_def)

lemma loop_retry_0:
  assumes "try_error r hr st a t 0 = Some e"
  shows "retry_loop r hr st a t 0 =
           (fst (retry_loop r hr st a t (Suc 0)),
            snd (try_block r hr (st 0) a t 0)
              @ [Log WARNING (''Database connection attempt 1 failed: '' @ exn_str e),
                 Sleep (1 / 2)]
              @ snd (retry_loop r hr st a t (Suc 0)))"
  using retry_loop_retry [of 0 r hr st a t e] assms
  by (simp add: max_retries_def str_nat_1 retry_delay_def)

lemma loop_retry_1:
  assumes "try_error r hr st a t (Suc 0) = Some e"
  shows "retry_loop r hr st a t (Suc 0) =
           (fst (retry_loop r hr st a t 2),
            snd (try_block r hr (st (Suc 0)) a t (Suc 0))
              @ [Log WARNING (''Database connection attempt 2 failed: '' @ exn_str e),
                 Sleep 1]
              @ snd (retry_loop r hr st a t 2))"
  using retry_loop_retry [of "Suc 0" r hr st a t e] assms
  by (simp add: max_retries_def str_nat_2 retry_delay_def numeral_2_eq_2 [symmetric])

lemma loop_last_2:
  assumes "try_error r hr st a t 2 = Some e"
  shows "retry_loop r hr st a t 2 =
           (Response 503 (''Database connection failed after 3 attempts: '' @ exn_str e),
            snd (try_block r hr (st 2) a t 2)
              @ [Log WARNING (''Database connection attempt 3 failed: '' @ exn_str e),
                 Log ERROR ''All 3 connection attempts failed''])"
  using retry_loop_last [of 2 r hr st a t e] assms by (simp add: max_retries_def str_nat_3)

subsection \<open>Exhausted retries\<close>

text \<open>
  Claim C1. A valid request (an object body with a true \<open>task\<close> value, the environment
  variable present and all four patterns found) whose three attempts all end in an
  exception of a database call: exactly three attempts are made, and the result is the
  response 503 with the body \<open>Database connection failed after 3 attempts: \<close> followed by
  the text of the exception of the third attempt.
\<close>

theorem persist_exhausted:
  assumes "get_json req = Some body" and "dict_get body ''task'' = Inr t" and "truthy t"
    and "environ env_key = Some cs" and "parsable cs"
    and "\<forall>n<3. attempt_error st (descriptor cs) t n \<noteq> None"
  shows "\<exists>e. attempt_error st (descriptor cs) t 2 = Some e
           \<and> fst (HttpTrigger_main r hr req environ st) =
               Response 503 (''Database connection failed after 3 attempts: '' @ exn_str e)
           \<and> attempts (snd (HttpTrigger_main r hr req environ st)) = 3"
proof -
  let ?a = "descriptor cs"
  have "attempt_error st ?a t 0 \<noteq> None" "attempt_error st ?a t (Suc 0) \<noteq> None"
    "attempt_error st ?a t 2 \<noteq> None"
    using assms(6) by simp_all
  then obtain e1 e2 e3 where
    d: "attempt_error st ?a t 0 = Some e1" "attempt_error st ?a t (Suc 0) = Some e2"
       "attempt_error st ?a t 2 = Some e3"
    by blast
  have e: "try_error r hr st ?a t 0 = Some e1" "try_error r hr st ?a t (Suc 0) = Some e2"
       "try_error r hr st ?a t 2 = Some e3"
    using d by (simp_all add: try_error_db)
  have m: "HttpTrigger_main r hr req environ st =
      (fst (retry_loop r hr st ?a t 0),
       [received, ReadEnv env_key] @ snd (retry_loop r hr st ?a t 0))"
    using assms(1-5) by (rule main_valid)
  have "fst (HttpTrigger_main r hr req environ st) =
      Response 503 (''Database connection failed after 3 attempts: '' @ exn_str e3)"
    by (simp add: m loop_retry_0 [OF e(1)] loop_retry_1 [OF e(2)] loop_last_2 [OF e(3)])
  moreover have "attempts (snd (HttpTrigger_main r hr req environ st)) = 3"
    by (simp add: m loop_retry_0 [OF e(1)] loop_retry_1 [OF e(2)] loop_last_2 [OF e(3)]
        attempts_append attempts_try_block attempts_Cons attempts_Nil received_def)
  ultimately show ?thesis using d(3) by blast
qed

theorem persist_exhausted_witness:
  "attempt_error store_down (descriptor sample_conn_str) (JString ''do something'') 0 \<noteq> None
   \<and> attempt_error store_down (descriptor sample_conn_str) (JString ''do something'') 1 \<noteq> None
   \<and> attempt_error store_down (descriptor sample_conn_str) (JString ''do something'') 2 \<noteq> None
   \<and> fst (HttpTrigger_main no_repr encodes_all sample_request sample_environ store_down) =
       Response 503 ''Database connection failed after 3 attempts: down 2''
   \<and> attempts (snd (HttpTrigger_main no_repr encodes_all sample_request sample_environ store_down)) = 3"
proof -
  let ?t = "JString ''do something''"
  have h1: "get_json sample_request = Some (JObject [(''task'', ?t)])"
    by (simp add: sample_request_def)
  have h2: "dict_get (JObject [(''task'', ?t)]) ''task'' = Inr ?t" by simp
  have h3: "truthy ?t" by simp
  have h4: "sample_environ env_key = Some sample_conn_str" by (simp add: sample_environ_def)
  have h5: "parsable sample_conn_str" by code_simp
  have h6: "\<forall>n<3. attempt_error store_down (descriptor sample_conn_str) ?t n \<noteq> None"
    by (simp add: attempt_error_None_iff store_down_def)
  have e: "attempt_error store_down (descriptor sample_conn_str) ?t 2 = Some (Exception ''down 2'')"
    by (simp add: attempt_error_def db_calls_def store_down_def str_nat.simps digit_char_def)
  from persist_exhausted [where environ = sample_environ and r = no_repr and hr = encodes_all,
      OF h1 h2 h3 h4 h5 h6] e h6
  show ?thesis by auto
qed

subsection \<open>Backoff\<close>

lemma steps_main_valid:
  assumes "get_json req = Some body" and "dict_get body ''task'' = Inr t" and "truthy t"
    and "environ env_key = Some cs" and "parsable cs"
  shows "steps (snd (HttpTrigger_main r hr req environ st)) =
           steps (snd (retry_loop r hr st (descriptor cs) t 0))"
  by (simp add: main_valid [where environ = environ, OF assms] received_def)

text \<open>
  The attempts and sleeps of a valid call, by the attempts whose \<open>try\<close> block is left by
  an exception: a sleep of \<open>retry_delay * i\<close> follows the \<open>i\<close>-th such attempt for
  \<open>i < 3\<close>, and nothing follows the third attempt or an attempt that returns.
\<close>

lemma backoff_schedule:
  assumes "get_json req = Some body" and "dict_get body ''task'' = Inr t" and "truthy t"
    and "environ env_key = Some cs" and "parsable cs"
  shows "steps (snd (HttpTrigger_main r hr req environ st)) =
           (if try_error r hr st (descriptor cs) t 0 = None then [Attempt]
            else if try_error r hr st (descriptor cs) t 1 = None
              then [Attempt, Wait (retry_delay * 1), Attempt]
            else [Attempt, Wait (retry_delay * 1), Attempt, Wait (retry_delay * 2), Attempt])"
proof -
  let ?a = "descriptor cs"
  note m = steps_main_valid [where environ = environ and r = r and hr = hr and st = st, OF assms]
  show ?thesis
  proof (cases "try_error r hr st ?a t 0")
    case None
    then show ?thesis by (simp add: m loop_ok_0 steps_append steps_try_block)
  next
    case e0: (Some e0)
    show ?thesis
    proof (cases "try_error r hr st ?a t (Suc 0)")
      case None
      then show ?thesis
        by (simp add: m e0 loop_retry_0 [OF e0] loop_ok_1 steps_append steps_try_block
            retry_delay_def)
    next
      case e1: (Some e1)
      show ?thesis
      proof (cases "try_error r hr st ?a t 2")
        case None
        then show ?thesis
          by (simp add: m e0 e1 loop_retry_0 [OF e0] loop_retry_1 [OF e1] loop_ok_2
              steps_append steps_try_block retry_delay_def)
      next
        case (Some e2)
        then show ?thesis
          by (simp add: m e0 e1 loop_retry_0 [OF e0] loop_retry_1 [OF e1] loop_last_2
              steps_append steps_try_block retry_delay_def)
      qed
    qed
  qed
qed

lemma backoff_schedule_busy_twice:
  "steps (snd (HttpTrigger_main no_repr encodes_all sample_request sample_environ store_busy_twice)) =
     [Attempt, Wait (1 / 2), Attempt, Wait 1, Attempt]"
  by code_simp


subsection \<open>Success\<close>

text \<open>
  When the response can be built: for a valid request whose attempts before the \<open>k\<close>-th
  fail in the database and whose \<open>k\<close>-th attempt (\<open>1 \<le> k \<le> 3\<close>) succeeds, exactly \<open>k\<close>
  attempts are made and the result is the response 200 with the body \<open>Task added: \<close>
  followed by the payload; a string payload is echoed as it is.
\<close>

lemma persist_success:
  assumes "get_json req = Some body" and "dict_get body ''task'' = Inr t" and "truthy t"
    and "environ env_key = Some cs" and "parsable cs"
    and "hr (''Task added: '' @ py_str r t) = None"
    and "1 \<le> k" and "k \<le> 3"
    and "\<forall>i. 1 \<le> i \<and> i < k \<longrightarrow> attempt_error st (descriptor cs) t (i - 1) \<noteq> None"
    and "attempt_error st (descriptor cs) t (k - 1) = None"
  shows "fst (HttpTrigger_main r hr req environ st) = Response 200 (''Task added: '' @ py_str r t)
         \<and> attempts (snd (HttpTrigger_main r hr req environ st)) = k
         \<and> (\<forall>s. t = JString s \<longrightarrow>
               fst (HttpTrigger_main r hr req environ st) = Response 200 (''Task added: '' @ s))"
proof -
  let ?a = "descriptor cs"
  note m = main_valid [where environ = environ and r = r and hr = hr and st = st, OF assms(1-5)]
  note b = try_error_built [of hr r t st ?a, OF assms(6)]
  from assms(7,8) consider "k = 1" | "k = 2" | "k = 3" by linarith
  then have "fst (HttpTrigger_main r hr req environ st) = Response 200 (''Task added: '' @ py_str r t)
         \<and> attempts (snd (HttpTrigger_main r hr req environ st)) = k"
  proof cases
    case 1
    with assms(10) have "try_error r hr st ?a t 0 = None" by (simp add: b)
    then show ?thesis using 1
      by (simp add: m loop_ok_0 attempts_append attempts_try_block attempts_Cons attempts_Nil
          received_def)
  next
    case 2
    with assms(10) have ok: "try_error r hr st ?a t (Suc 0) = None" by (simp add: b)
    from assms(9) [rule_format, of 1] 2 obtain e0 where e0: "try_error r hr st ?a t 0 = Some e0"
      by (auto simp: b)
    show ?thesis using 2
      by (simp add: m loop_retry_0 [OF e0] loop_ok_1 [OF ok] attempts_append attempts_try_block
          attempts_Cons attempts_Nil received_def)
  next
    case 3
    with assms(10) have ok: "try_error r hr st ?a t 2 = None" by (simp add: b)
    from assms(9) [rule_format, of 1] 3 obtain e0 where e0: "try_error r hr st ?a t 0 = Some e0"
      by (auto simp: b)
    from assms(9) [rule_format, of 2] 3 obtain e1 where e1: "try_error r hr st ?a t (Suc 0) = Some e1"
      by (auto simp: b)
    show ?thesis using 3
      by (simp add: m loop_retry_0 [OF e0] loop_retry_1 [OF e1] loop_ok_2 [OF ok] attempts_append
          attempts_try_block attempts_Cons attempts_Nil received_def)
  qed
  then show ?thesis by simp
qed

lemma persist_success_samples:
  "HttpTrigger_main no_repr encodes_all sample_request sample_environ store_up =
     (Response 200 ''Task added: do something'',
      [received, ReadEnv env_key, Call (Connect (descriptor sample_conn_str)) None,
       Call Cursor None, Call (Execute insert_sql (JString ''do something'')) None,
       Call Commit None, Call Close None,
       Log INFO ''Task inserted successfully (attempt 1)''])
   \<and> fst (HttpTrigger_main no_repr encodes_all sample_request sample_environ store_busy_twice) =
       Response 200 ''Task added: do something''
   \<and> attempts (snd (HttpTrigger_main no_repr encodes_all sample_request sample_environ
                       store_busy_twice)) = 3"
  by code_simp


subsection \<open>Configuration\<close>

text \<open>
  Claim C6. For a request that passes validation, when one of the four patterns is not
  found in the connection string the result is the response 500 with the body
  \<open>Invalid connection string format\<close>; the trace ends with the read of the environment:
  no attempt is made and nothing is slept or retried.
\<close>

theorem config_error:
  assumes "get_json req = Some body" and "dict_get body ''task'' = Inr t" and "truthy t"
    and "environ env_key = Some cs"
    and "re_search server_rx cs = None \<or> re_search db_rx cs = None
         \<or> re_search user_rx cs = None \<or> re_search pwd_rx cs = None"
  shows "fst (HttpTrigger_main r hr req environ st) = Response 500 ''Invalid connection string format''
         \<and> snd (HttpTrigger_main r hr req environ st) = [received, ReadEnv env_key]
         \<and> attempts (snd (HttpTrigger_main r hr req environ st)) = 0
         \<and> steps (snd (HttpTrigger_main r hr req environ st)) = []"
  using assms
  by (auto simp: HttpTrigger_main_def received_def attempts_def Let_def)

theorem config_error_witness:
  "re_search user_rx conn_str_without_user = None
   \<and> HttpTrigger_main no_repr encodes_all sample_request [env_key \<mapsto> conn_str_without_user] store_down =
       (Response 500 ''Invalid connection string format'', [received, ReadEnv env_key])"
proof -
  let ?t = "JString ''do something''"
  have h1: "get_json sample_request = Some (JObject [(''task'', ?t)])"
    by (simp add: sample_request_def)
  have h2: "dict_get (JObject [(''task'', ?t)]) ''task'' = Inr ?t" by simp
  have h3: "truthy ?t" by simp
  have h4: "[env_key \<mapsto> conn_str_without_user] env_key = Some conn_str_without_user" by simp
  have u: "re_search user_rx conn_str_without_user = None" by code_simp
  then have h5: "re_search server_rx conn_str_without_user = None
      \<or> re_search db_rx conn_str_without_user = None
      \<or> re_search user_rx conn_str_without_user = None
      \<or> re_search pwd_rx conn_str_without_user = None" by simp
  from config_error [where environ = "[env_key \<mapsto> conn_str_without_user]" and r = no_repr and hr = encodes_all
      and st = store_down, OF h1 h2 h3 h4 h5] u
  show ?thesis by (simp add: prod_eq_iff)
qed

text \<open>
  Claim C9. For a request that passes validation, when the environment has no entry
  \<open>SqlConnectionString\<close> the function ends with a \<open>KeyError\<close> that leaves it: there is no
  response, in particular not the response 500.
\<close>

theorem missing_environment_variable:
  assumes "get_json req = Some body" and "dict_get body ''task'' = Inr t" and "truthy t"
    and "environ env_key = None"
  shows "HttpTrigger_main r hr req environ st = (Raised (KeyError env_key), [received, ReadEnv env_key])
         \<and> (\<forall>code text. fst (HttpTrigger_main r hr req environ st) \<noteq> Response code text)"
  using assms by (simp add: HttpTrigger_main_def received_def)

theorem missing_environment_variable_witness:
  "HttpTrigger_main no_repr encodes_all sample_request Map.empty store_down =
     (Raised (KeyError ''SqlConnectionString''),
      [Log INFO ''HTTP trigger received a request.'', ReadEnv ''SqlConnectionString''])"
proof -
  let ?t = "JString ''do something''"
  have h1: "get_json sample_request = Some (JObject [(''task'', ?t)])"
    by (simp add: sample_request_def)
  have h2: "dict_get (JObject [(''task'', ?t)]) ''task'' = Inr ?t" by simp
  have h3: "truthy ?t" by simp
  have h4: "(Map.empty :: string \<rightharpoonup> string) env_key = None" by simp
  from missing_environment_variable [where environ = Map.empty and r = no_repr and hr = encodes_all and st = store_down,
      OF h1 h2 h3 h4]
  show ?thesis by (simp add: env_key_def received_def)
qed

subsection \<open>Validation\<close>

lemma invalid_json_rejected:
  "get_json req = None \<Longrightarrow>
     HttpTrigger_main r hr req environ st = (Response 400 ''Invalid JSON'', [received])"
  by (simp add: HttpTrigger_main_def received_def)

lemma falsy_task_rejected:
  "get_json req = Some body \<Longrightarrow> dict_get body ''task'' = Inr t \<Longrightarrow> \<not> truthy t \<Longrightarrow>
     HttpTrigger_main r hr req environ st = (Response 400 (''Missing '' @ quoted ''task''), [received])"
  by (simp add: HttpTrigger_main_def received_def)

text \<open>
  Claim C5. The claim promises the response 400 for every JSON body without a \<open>task\<close>
  field. The function calls \<open>get\<close> on whatever the body parses to, so for a body that is
  valid JSON but not an object, here the empty array, the call ends with an
  \<open>AttributeError\<close> that leaves the function and no response is returned. The two
  lemmas above are the cases in which the function does answer 400.
\<close>

theorem non_object_body_raises:
  "HttpTrigger_main no_repr encodes_all (HttpRequest (Some (JArray []))) sample_environ store_down =
     (Raised (AttributeError (quoted ''list'' @ '' object has no attribute '' @ quoted ''get'')),
      [Log INFO ''HTTP trigger received a request.''])"
  by (simp add: HttpTrigger_main_def)

lemma truthy_iff:
  "truthy v \<longleftrightarrow>
     v \<notin> {JNull, JBool False, JInt 0, JFloat (Finite 0), JString [], JArray [], JObject []}"
  by (cases v) auto

lemma try_block_execute:
  "db (Connect a) = None \<Longrightarrow> db Cursor = None \<Longrightarrow>
     Call (Execute insert_sql t) (db (Execute insert_sql t)) \<in> set (snd (try_block r hr db a t n))"
  by (auto simp: try_block_snd db_calls_def split: option.splits)

lemma try_block_connect:
  "\<exists>tl. snd (try_block r hr db a t n) = Call (Connect a) (db (Connect a)) # tl"
  by (auto simp: try_block_snd db_calls_def split: option.splits)

lemma retry_loop_0_prefix:
  "\<exists>tl. snd (retry_loop r hr st a t 0) = snd (try_block r hr (st 0) a t 0) @ tl"
  by (cases "try_error r hr st a t 0") (simp_all add: loop_ok_0 loop_retry_0)

text \<open>
  Claim C10. For an object body, let \<open>v\<close> be what \<open>get("task")\<close> returns (\<open>None\<close> when the
  key is absent). \<open>v\<close> is false exactly when it is \<open>None\<close>, \<open>False\<close>, \<open>0\<close>, \<open>0.0\<close>, the
  empty string, the empty list or the empty dict, and then the result is the response 400
  with the body \<open>Missing 'task'\<close> and nothing else happens. Every other \<open>v\<close>, string or
  not, passes: with a parsable connection string the function reads the environment and
  connects, and when \<open>connect\<close> and \<open>cursor\<close> return it executes the insert with \<open>v\<close> as
  the parameter.
\<close>

theorem task_truthiness:
  assumes "get_json req = Some (JObject kvs)"
    and "v = (case map_of kvs ''task'' of None \<Rightarrow> JNull | Some x \<Rightarrow> x)"
  shows "(truthy v \<longleftrightarrow>
            v \<notin> {JNull, JBool False, JInt 0, JFloat (Finite 0), JString [], JArray [], JObject []})
         \<and> (\<not> truthy v \<longrightarrow>
              HttpTrigger_main r hr req environ st =
                (Response 400 (''Missing '' @ quoted ''task''), [received]))
         \<and> (truthy v \<longrightarrow> environ env_key = Some cs \<longrightarrow> parsable cs \<longrightarrow>
              (\<exists>tl. snd (HttpTrigger_main r hr req environ st) =
                 received # ReadEnv env_key
                   # Call (Connect (descriptor cs)) (st 0 (Connect (descriptor cs))) # tl)
              \<and> (st 0 (Connect (descriptor cs)) = None \<longrightarrow> st 0 Cursor = None \<longrightarrow>
                   Call (Execute insert_sql v) (st 0 (Execute insert_sql v))
                     \<in> set (snd (HttpTrigger_main r hr req environ st))))"
proof -
  have g: "dict_get (JObject kvs) ''task'' = Inr v" using assms(2) by simp
  have a: "\<not> truthy v \<Longrightarrow> HttpTrigger_main r hr req environ st =
      (Response 400 (''Missing '' @ quoted ''task''), [received])"
    using assms(1) g by (simp add: HttpTrigger_main_def received_def)
  have b: "\<exists>tl. snd (HttpTrigger_main r hr req environ st) =
        received # ReadEnv env_key # Call (Connect (descriptor cs)) (st 0 (Connect (descriptor cs))) # tl"
    and c: "st 0 (Connect (descriptor cs)) = None \<Longrightarrow> st 0 Cursor = None \<Longrightarrow>
        Call (Execute insert_sql v) (st 0 (Execute insert_sql v))
          \<in> set (snd (HttpTrigger_main r hr req environ st))"
    if t: "truthy v" and e: "environ env_key = Some cs" and p: "parsable cs"
  proof -
    note m = main_valid [where environ = environ and r = r and hr = hr and st = st, OF assms(1) g t e p]
    obtain tl where tl: "snd (retry_loop r hr st (descriptor cs) v 0) =
        snd (try_block r hr (st 0) (descriptor cs) v 0) @ tl"
      using retry_loop_0_prefix by blast
    obtain tl' where tl': "snd (try_block r hr (st 0) (descriptor cs) v 0) =
        Call (Connect (descriptor cs)) (st 0 (Connect (descriptor cs))) # tl'"
      using try_block_connect by blast
    show "\<exists>tl. snd (HttpTrigger_main r hr req environ st) =
        received # ReadEnv env_key # Call (Connect (descriptor cs)) (st 0 (Connect (descriptor cs))) # tl"
      by (simp add: m tl tl')
    show "Call (Execute insert_sql v) (st 0 (Execute insert_sql v))
          \<in> set (snd (HttpTrigger_main r hr req environ st))"
      if "st 0 (Connect (descriptor cs)) = None" and "st 0 Cursor = None"
      using try_block_execute [OF that, of v r hr 0] by (simp add: m tl)
  qed
  from a b c truthy_iff [of v] show ?thesis by blast
qed

theorem task_truthiness_witness:
  "HttpTrigger_main no_repr encodes_all (HttpRequest (Some (JObject [(''task'', JInt 0)]))) sample_environ
       store_up =
     (Response 400 (''Missing '' @ quoted ''task''), [received])
   \<and> HttpTrigger_main no_repr encodes_all (HttpRequest (Some (JObject []))) sample_environ store_up =
     (Response 400 (''Missing '' @ quoted ''task''), [received])
   \<and> truthy (JInt 7)
   \<and> Call (Execute insert_sql (JInt 7)) None
       \<in> set (snd (HttpTrigger_main no_repr encodes_all (HttpRequest (Some (JObject [(''task'', JInt 7)])))
                     sample_environ store_up))"
proof -
  have z1: "get_json (HttpRequest (Some (JObject [(''task'', JInt 0)]))) =
      Some (JObject [(''task'', JInt 0)])" by simp
  have z2: "JInt 0 = (case map_of [(''task'', JInt 0)] ''task'' of None \<Rightarrow> JNull | Some x \<Rightarrow> x)"
    by simp
  have a1: "get_json (HttpRequest (Some (JObject []))) = Some (JObject [])" by simp
  have a2: "JNull = (case map_of ([] :: (string \<times> json) list) ''task'' of None \<Rightarrow> JNull | Some x \<Rightarrow> x)"
    by simp
  have s1: "get_json (HttpRequest (Some (JObject [(''task'', JInt 7)]))) =
      Some (JObject [(''task'', JInt 7)])" by simp
  have s2: "JInt 7 = (case map_of [(''task'', JInt 7)] ''task'' of None \<Rightarrow> JNull | Some x \<Rightarrow> x)"
    by simp
  have e: "sample_environ env_key = Some sample_conn_str" by (simp add: sample_environ_def)
  have p: "parsable sample_conn_str" by code_simp
  from task_truthiness [where environ = sample_environ and r = no_repr and hr = encodes_all and st = store_up
      and cs = sample_conn_str, OF z1 z2]
    task_truthiness [where environ = sample_environ and r = no_repr and hr = encodes_all and st = store_up
      and cs = sample_conn_str, OF a1 a2]
    task_truthiness [where environ = sample_environ and r = no_repr and hr = encodes_all and st = store_up
      and cs = sample_conn_str, OF s1 s2] e p
  show ?thesis by (simp add: store_up_def)
qed

subsection \<open>The SQL statement\<close>

lemma retry_loop_execute:
  "Call (Execute q p) y \<in> set (snd (retry_loop r hr st a t n)) \<Longrightarrow> q = insert_sql \<and> p = t"
proof (induction r hr st a t n rule: retry_loop.induct)
  case (1 r hr st a t n)
  obtain x tl where tb: "snd (try_block r hr (st n) a t n) = Call (Connect a) x # tl"
    and ex: "\<forall>q p y. Call (Execute q p) y \<in> set tl \<longrightarrow> q = insert_sql \<and> p = t"
    using try_block_trace [of r hr "st n" a t n] by blast
  show ?case
  proof (cases "n < max_retries")
    case False
    with "1.prems" show ?thesis by (subst (asm) retry_loop.simps) simp
  next
    case lt: True
    show ?thesis
    proof (cases "try_error r hr st a t n")
      case None
      with "1.prems" lt tb ex show ?thesis by (auto simp: retry_loop_ok)
    next
      case (Some e)
      show ?thesis
      proof (cases "n < max_retries - 1")
        case False
        with "1.prems" lt tb ex Some show ?thesis by (auto simp: retry_loop_last)
      next
        case True
        obtain tr where tbp: "try_block r hr (st n) a t n = (Inl e, tr)"
          using Some try_block_fst [of r hr st n a t]
          by (cases "try_block r hr (st n) a t n") simp
        have ih: "Call (Execute q p) y \<in> set (snd (retry_loop r hr st a t (n + 1)))
            \<Longrightarrow> q = insert_sql \<and> p = t"
          using "1.IH" [OF lt tbp [symmetric] refl True] by simp
        from "1.prems" True tb ex Some ih show ?thesis by (auto simp: retry_loop_retry)
      qed
    qed
  qed
qed

lemma retry_loop_execute_pair:
  "retry_loop r hr st a t n = (res, tr) \<Longrightarrow> Call (Execute q p) y \<in> set tr
     \<Longrightarrow> q = insert_sql \<and> p = t"
  using retry_loop_execute [of q p y r hr st a t n] by simp

lemma main_execute:
  assumes "Call (Execute q p) y \<in> set (snd (HttpTrigger_main r hr req environ st))"
  shows "q = insert_sql \<and> (\<exists>body. get_json req = Some body \<and> dict_get body ''task'' = Inr p)"
  using assms
  by (auto simp: HttpTrigger_main_def Let_def split: option.splits sum.splits if_splits prod.splits
      dest: retry_loop_execute_pair)

text \<open>
  Claim C7. Every \<open>execute\<close> call of every run carries the same SQL text, the constant
  \<open>INSERT INTO dbo.Tasks (Payload) VALUES (%s)\<close>, and carries the \<open>task\<close> value of the
  request as the parameter of the call: two runs with different payloads execute the same
  text.
\<close>

theorem constant_sql_text:
  assumes "Call (Execute q p) y \<in> set (snd (HttpTrigger_main r hr req environ st))"
    and "Call (Execute q' p') y' \<in> set (snd (HttpTrigger_main r' hr' req' environ' st'))"
  shows "q = q' \<and> q = ''INSERT INTO dbo.Tasks (Payload) VALUES (%s)''
         \<and> (\<exists>body. get_json req = Some body \<and> dict_get body ''task'' = Inr p)
         \<and> (\<exists>body'. get_json req' = Some body' \<and> dict_get body' ''task'' = Inr p')"
  using main_execute [OF assms(1)] main_execute [OF assms(2)] by (simp add: insert_sql_def)

theorem constant_sql_text_witness:
  "Call (Execute ''INSERT INTO dbo.Tasks (Payload) VALUES (%s)'' (JString ''do something'')) None
     \<in> set (snd (HttpTrigger_main no_repr encodes_all sample_request sample_environ store_up))
   \<and> Call (Execute ''INSERT INTO dbo.Tasks (Payload) VALUES (%s)''
             (JString ''x); DROP TABLE dbo.Tasks; --'')) (Some (Exception ''deadlock''))
     \<in> set (snd (HttpTrigger_main no_repr encodes_all other_request sample_environ store_execute_fails))"
proof -
  have h1: "Call (Execute ''INSERT INTO dbo.Tasks (Payload) VALUES (%s)'' (JString ''do something'')) None
     \<in> set (snd (HttpTrigger_main no_repr encodes_all sample_request sample_environ store_up))"
    by code_simp
  have h2: "Call (Execute ''INSERT INTO dbo.Tasks (Payload) VALUES (%s)''
             (JString ''x); DROP TABLE dbo.Tasks; --'')) (Some (Exception ''deadlock''))
     \<in> set (snd (HttpTrigger_main no_repr encodes_all other_request sample_environ store_execute_fails))"
    by code_simp
  from constant_sql_text [OF h1 h2] h1 h2 show ?thesis by simp
qed

subsection \<open>Connections\<close>

text \<open>
  Claim C3. The claim asks that a connection be closed on every exit path of the attempt
  that opened it. The function calls \<open>close\<close> only at the end of the \<open>try\<close> block. With a
  database whose \<open>connect\<close> returns and whose \<open>execute\<close> raises, the call opens three
  connections and never calls \<open>close\<close>.
\<close>

theorem connection_left_open:
  "fst (HttpTrigger_main no_repr encodes_all sample_request sample_environ store_execute_fails) =
     Response 503 ''Database connection failed after 3 attempts: deadlock''
   \<and> length (filter opened (snd (HttpTrigger_main no_repr encodes_all sample_request sample_environ
                                  store_execute_fails))) = 3
   \<and> filter closed (snd (HttpTrigger_main no_repr encodes_all sample_request sample_environ
                           store_execute_fails)) = []"
  by code_simp

section \<open>Properties of the SQL trigger\<close>

lemma dict_get_non_object:
  "\<not> is_object v \<Longrightarrow> dict_get v k = Inl (no_attribute_get (type_name v))"
  by (cases v) (simp_all add: no_attribute_get_def)

lemma log_items_objects:
  "list_all is_object items \<Longrightarrow> log_items r items = (None, map (record_line r) items)"
proof (induction items)
  case Nil
  show ?case by simp
next
  case (Cons item items)
  then obtain kvs where "item = JObject kvs" by (cases item) auto
  with Cons show ?case by (simp add: record_line_def)
qed

lemma log_items_raises:
  "\<not> list_all is_object items \<Longrightarrow>
     log_items r items =
       (Some (malformed_error (JArray items)), map (record_line r) (takeWhile is_object items))"
proof (induction items)
  case Nil
  then show ?case by simp
next
  case (Cons item items)
  show ?case
  proof (cases "is_object item")
    case True
    then obtain kvs where "item = JObject kvs" by (cases item) auto
    with Cons show ?thesis by (auto simp: record_line_def)
  next
    case False
    then show ?thesis by (simp add: dict_get_non_object)
  qed
qed

lemma sql_try_block_not_array:
  assumes "loads changes = Inr v" and "truthy v" and "\<not> is_array v"
  shows "sql_try_block loads r changes = (Some (malformed_error v), [])"
proof (cases v)
  case (JObject kvs)
  with assms(2) obtain k x kvs' where "kvs = (k, x) # kvs'" by (cases kvs) auto
  with JObject assms(1) show ?thesis
    by (simp add: sql_try_block_def no_attribute_get_def)
next
  case (JString s)
  with assms(2) obtain c s' where "s = c # s'" by (cases s) auto
  with JString assms(1) show ?thesis
    by (simp add: sql_try_block_def no_attribute_get_def)
qed (use assms in \<open>simp_all add: sql_try_block_def\<close>)

text \<open>
  Claim C8, as stated, fails: for the input \<open>null\<close>, which parses and is not an array,
  the handler logs that no changes were detected; nothing is logged as an error and the
  raw content is not logged.
\<close>

theorem null_logged_as_no_changes:
  "sample_loads ''null'' = Inr JNull
   \<and> SqlTriggerBinding_main sample_loads no_repr ''null'' =
       (ReturnedNone,
        [Log INFO ''SQL Trigger fired.'', Log INFO ''SQL Trigger fired but no changes detected.''])
   \<and> Log ERROR ''Raw content: null'' \<notin> set (snd (SqlTriggerBinding_main sample_loads no_repr ''null''))"
  by (simp add: sample_loads_def SqlTriggerBinding_main_def sql_try_block_def)

text \<open>
  Claim C8, amended. For every input string, every behaviour of \<open>json.loads\<close> and every
  rendering of values, the handler returns (its result is \<open>None\<close>, no exception leaves it),
  and after the record logged on entry its log is, by what the input parses to:
  \<^item> nothing, the decoder raises: the error record with the text of the exception, then
    the record of the raw content;
  \<^item> a false value (the empty array, and also \<open>null\<close>, \<open>false\<close>, \<open>0\<close>, \<open>0.0\<close>, the empty
    string and the empty object): only the record that no changes were detected;
  \<^item> a non-empty array of objects: one record per element, in order;
  \<^item> an array with an element that is not an object: the records of the objects before
    the first such element, then the error record and the record of the raw content;
  \<^item> any other true value (a non-empty object or string, \<open>true\<close>, a number other than
    zero): the error record and the record of the raw content.
\<close>

theorem change_consumer_log:
  "fst (SqlTriggerBinding_main loads r changes) = ReturnedNone
   \<and> (\<forall>e. loads changes = Inl e \<longrightarrow>
         snd (SqlTriggerBinding_main loads r changes) =
           [Log INFO ''SQL Trigger fired.'',
            Log ERROR (''Error parsing SQL trigger input: '' @ exn_str e),
            Log ERROR (''Raw content: '' @ changes)])
   \<and> (\<forall>v. loads changes = Inr v \<and> \<not> truthy v \<longrightarrow>
         snd (SqlTriggerBinding_main loads r changes) =
           [Log INFO ''SQL Trigger fired.'',
            Log INFO ''SQL Trigger fired but no changes detected.''])
   \<and> (\<forall>items. loads changes = Inr (JArray items) \<and> items \<noteq> [] \<and> list_all is_object items \<longrightarrow>
         snd (SqlTriggerBinding_main loads r changes) =
           Log INFO ''SQL Trigger fired.'' # map (record_line r) items)
   \<and> (\<forall>items. loads changes = Inr (JArray items) \<and> \<not> list_all is_object items \<longrightarrow>
         snd (SqlTriggerBinding_main loads r changes) =
           Log INFO ''SQL Trigger fired.'' # map (record_line r) (takeWhile is_object items)
             @ [Log ERROR (''Error parsing SQL trigger input: ''
                           @ exn_str (malformed_error (JArray items))),
                Log ERROR (''Raw content: '' @ changes)])
   \<and> (\<forall>v. loads changes = Inr v \<and> truthy v \<and> \<not> is_array v \<longrightarrow>
         snd (SqlTriggerBinding_main loads r changes) =
           [Log INFO ''SQL Trigger fired.'',
            Log ERROR (''Error parsing SQL trigger input: '' @ exn_str (malformed_error v)),
            Log ERROR (''Raw content: '' @ changes)])"
proof -
  have a: "fst (SqlTriggerBinding_main loads r changes) = ReturnedNone"
    by (simp add: SqlTriggerBinding_main_def split: prod.splits option.splits)
  have b: "snd (SqlTriggerBinding_main loads r changes) =
           [Log INFO ''SQL Trigger fired.'',
            Log ERROR (''Error parsing SQL trigger input: '' @ exn_str e),
            Log ERROR (''Raw content: '' @ changes)]"
    if "loads changes = Inl e" for e
    using that by (simp add: SqlTriggerBinding_main_def sql_try_block_def)
  have c: "snd (SqlTriggerBinding_main loads r changes) =
           [Log INFO ''SQL Trigger fired.'', Log INFO ''SQL Trigger fired but no changes detected.'']"
    if "loads changes = Inr v" and "\<not> truthy v" for v
    using that by (simp add: SqlTriggerBinding_main_def sql_try_block_def)
  have d: "snd (SqlTriggerBinding_main loads r changes) =
           Log INFO ''SQL Trigger fired.'' # map (record_line r) items"
    if "loads changes = Inr (JArray items)" "items \<noteq> []" "list_all is_object items" for items
    using that by (simp add: SqlTriggerBinding_main_def sql_try_block_def log_items_objects)
  have e: "snd (SqlTriggerBinding_main loads r changes) =
           Log INFO ''SQL Trigger fired.'' # map (record_line r) (takeWhile is_object items)
             @ [Log ERROR (''Error parsing SQL trigger input: ''
                           @ exn_str (malformed_error (JArray items))),
                Log ERROR (''Raw content: '' @ changes)]"
    if l: "loads changes = Inr (JArray items)" and n: "\<not> list_all is_object items" for items
  proof -
    from n have "items \<noteq> []" by auto
    then show ?thesis using l log_items_raises [OF n, of r]
      by (simp add: SqlTriggerBinding_main_def sql_try_block_def)
  qed
  have f: "snd (SqlTriggerBinding_main loads r changes) =
           [Log INFO ''SQL Trigger fired.'',
            Log ERROR (''Error parsing SQL trigger input: '' @ exn_str (malformed_error v)),
            Log ERROR (''Raw content: '' @ changes)]"
    if "loads changes = Inr v" and "truthy v" and "\<not> is_array v" for v
    using sql_try_block_not_array [where loads = loads and changes = changes and r = r, OF that]
    by (simp add: SqlTriggerBinding_main_def)
  from a b c d e f show ?thesis by blast
qed

theorem change_consumer_log_witness:
  \<open>SqlTriggerBinding_main sample_loads no_repr ''[]'' =
     (ReturnedNone,
      [Log INFO ''SQL Trigger fired.'', Log INFO ''SQL Trigger fired but no changes detected.''])
   \<and> SqlTriggerBinding_main sample_loads no_repr
         ''[{"Id": 1, "Payload": "do something", "Processed": false}, {"Id": 2}]'' =
     (ReturnedNone,
      [Log INFO ''SQL Trigger fired.'',
       Log INFO ''SQL Trigger fired: Id=1, Payload=do something, Processed=False'',
       Log INFO ''SQL Trigger fired: Id=2, Payload=None, Processed=None''])
   \<and> SqlTriggerBinding_main sample_loads no_repr ''not json'' =
     (ReturnedNone,
      [Log INFO ''SQL Trigger fired.'',
       Log ERROR ''Error parsing SQL trigger input: Expecting value: line 1 column 1 (char 0)'',
       Log ERROR ''Raw content: not json''])
   \<and> SqlTriggerBinding_main sample_loads no_repr ''[{"Id": 1}, 7]'' =
     (ReturnedNone,
      [Log INFO ''SQL Trigger fired.'',
       Log INFO ''SQL Trigger fired: Id=1, Payload=None, Processed=None'',
       Log ERROR (''Error parsing SQL trigger input: '' @ quoted ''int''
                  @ '' object has no attribute '' @ quoted ''get''),
       Log ERROR ''Raw content: [{"Id": 1}, 7]''])
   \<and> SqlTriggerBinding_main sample_loads no_repr ''{"Id": 1}'' =
     (ReturnedNone,
      [Log INFO ''SQL Trigger fired.'',
       Log ERROR (''Error parsing SQL trigger input: '' @ quoted ''str''
                  @ '' object has no attribute '' @ quoted ''get''),
       Log ERROR ''Raw content: {"Id": 1}''])
   \<and> SqlTriggerBinding_main sample_loads no_repr ''7'' =
     (ReturnedNone,
      [Log INFO ''SQL Trigger fired.'',
       Log ERROR (''Error parsing SQL trigger input: '' @ quoted ''int''
                  @ '' object is not iterable''),
       Log ERROR ''Raw content: 7''])\<close>
proof -
  let ?recs = \<open>''[{"Id": 1, "Payload": "do something", "Processed": false}, {"Id": 2}]''\<close>
  let ?items = "[JObject [(''Id'', JInt 1), (''Payload'', JString ''do something''),
                          (''Processed'', JBool False)],
                 JObject [(''Id'', JInt 2)]]"
  let ?bad = \<open>''[{"Id": 1}, 7]''\<close>
  let ?bitems = "[JObject [(''Id'', JInt 1)], JInt 7]"
  let ?obj = \<open>''{"Id": 1}''\<close>
  have i1: "str_int 1 = ''1''" and i2: "str_int 2 = ''2''" by code_simp+
  have e: "sample_loads ''[]'' = Inr (JArray []) \<and> \<not> truthy (JArray [])"
    by (simp add: sample_loads_def)
  have p: "sample_loads ?recs = Inr (JArray ?items) \<and> ?items \<noteq> [] \<and> list_all is_object ?items"
    by (simp add: sample_loads_def)
  have u: "sample_loads ''not json'' = Inl (Exception ''Expecting value: line 1 column 1 (char 0)'')"
    by (simp add: sample_loads_def)
  have m: "sample_loads ?bad = Inr (JArray ?bitems) \<and> \<not> list_all is_object ?bitems"
    by (simp add: sample_loads_def)
  have o: "sample_loads ?obj = Inr (JObject [(''Id'', JInt 1)]) \<and> truthy (JObject [(''Id'', JInt 1)])
      \<and> \<not> is_array (JObject [(''Id'', JInt 1)])"
    by (simp add: sample_loads_def)
  have n: "sample_loads ''7'' = Inr (JInt 7) \<and> truthy (JInt 7) \<and> \<not> is_array (JInt 7)"
    by (simp add: sample_loads_def)
  note w1 = change_consumer_log [of sample_loads no_repr "''[]''"]
  note w2 = change_consumer_log [of sample_loads no_repr ?recs]
  note w3 = change_consumer_log [of sample_loads no_repr "''not json''"]
  note w4 = change_consumer_log [of sample_loads no_repr ?bad]
  note w5 = change_consumer_log [of sample_loads no_repr ?obj]
  note w6 = change_consumer_log [of sample_loads no_repr "''7''"]
  have r1: "SqlTriggerBinding_main sample_loads no_repr ''[]'' =
     (ReturnedNone,
      [Log INFO ''SQL Trigger fired.'', Log INFO ''SQL Trigger fired but no changes detected.''])"
  proof -
    from w1 e have "snd (SqlTriggerBinding_main sample_loads no_repr ''[]'') =
        [Log INFO ''SQL Trigger fired.'', Log INFO ''SQL Trigger fired but no changes detected.'']"
      by blast
    moreover from w1 have "fst (SqlTriggerBinding_main sample_loads no_repr ''[]'') = ReturnedNone"
      by blast
    ultimately show ?thesis by (simp add: prod_eq_iff)
  qed
  have r2: "SqlTriggerBinding_main sample_loads no_repr ?recs =
     (ReturnedNone,
      [Log INFO ''SQL Trigger fired.'',
       Log INFO ''SQL Trigger fired: Id=1, Payload=do something, Processed=False'',
       Log INFO ''SQL Trigger fired: Id=2, Payload=None, Processed=None''])"
  proof -
    from w2 p have "snd (SqlTriggerBinding_main sample_loads no_repr ?recs) =
        Log INFO ''SQL Trigger fired.'' # map (record_line no_repr) ?items"
      by blast
    moreover from w2 have "fst (SqlTriggerBinding_main sample_loads no_repr ?recs) = ReturnedNone"
      by blast
    ultimately show ?thesis
      using i1 i2 by (simp add: prod_eq_iff record_line_def)
  qed
  have r3: "SqlTriggerBinding_main sample_loads no_repr ''not json'' =
     (ReturnedNone,
      [Log INFO ''SQL Trigger fired.'',
       Log ERROR ''Error parsing SQL trigger input: Expecting value: line 1 column 1 (char 0)'',
       Log ERROR ''Raw content: not json''])"
  proof -
    from w3 u have "snd (SqlTriggerBinding_main sample_loads no_repr ''not json'') =
        [Log INFO ''SQL Trigger fired.'',
         Log ERROR (''Error parsing SQL trigger input: ''
                    @ exn_str (Exception ''Expecting value: line 1 column 1 (char 0)'')),
         Log ERROR (''Raw content: '' @ ''not json'')]"
      by blast
    moreover from w3 have "fst (SqlTriggerBinding_main sample_loads no_repr ''not json'') = ReturnedNone"
      by blast
    ultimately show ?thesis by (simp add: prod_eq_iff)
  qed
  have r4: "SqlTriggerBinding_main sample_loads no_repr ?bad =
     (ReturnedNone,
      [Log INFO ''SQL Trigger fired.'',
       Log INFO ''SQL Trigger fired: Id=1, Payload=None, Processed=None'',
       Log ERROR (''Error parsing SQL trigger input: '' @ quoted ''int''
                  @ '' object has no attribute '' @ quoted ''get''),
       Log ERROR (''Raw content: '' @ ?bad)])"
  proof -
    from w4 m have "snd (SqlTriggerBinding_main sample_loads no_repr ?bad) =
        Log INFO ''SQL Trigger fired.'' # map (record_line no_repr) (takeWhile is_object ?bitems)
          @ [Log ERROR (''Error parsing SQL trigger input: ''
                        @ exn_str (malformed_error (JArray ?bitems))),
             Log ERROR (''Raw content: '' @ ?bad)]"
      by blast
    moreover from w4 have "fst (SqlTriggerBinding_main sample_loads no_repr ?bad) = ReturnedNone"
      by blast
    ultimately show ?thesis
      using i1 by (simp add: prod_eq_iff record_line_def no_attribute_get_def)
  qed
  have r5: "SqlTriggerBinding_main sample_loads no_repr ?obj =
     (ReturnedNone,
      [Log INFO ''SQL Trigger fired.'',
       Log ERROR (''Error parsing SQL trigger input: '' @ quoted ''str''
                  @ '' object has no attribute '' @ quoted ''get''),
       Log ERROR (''Raw content: '' @ ?obj)])"
  proof -
    from w5 o have "snd (SqlTriggerBinding_main sample_loads no_repr ?obj) =
        [Log INFO ''SQL Trigger fired.'',
         Log ERROR (''Error parsing SQL trigger input: ''
                    @ exn_str (malformed_error (JObject [(''Id'', JInt 1)]))),
         Log ERROR (''Raw content: '' @ ?obj)]"
      by blast
    moreover from w5 have "fst (SqlTriggerBinding_main sample_loads no_repr ?obj) = ReturnedNone"
      by blast
    ultimately show ?thesis by (simp add: prod_eq_iff no_attribute_get_def)
  qed
  have r6: "SqlTriggerBinding_main sample_loads no_repr ''7'' =
     (ReturnedNone,
      [Log INFO ''SQL Trigger fired.'',
       Log ERROR (''Error parsing SQL trigger input: '' @ quoted ''int''
                  @ '' object is not iterable''),
       Log ERROR ''Raw content: 7''])"
  proof -
    from w6 n have "snd (SqlTriggerBinding_main sample_loads no_repr ''7'') =
        [Log INFO ''SQL Trigger fired.'',
         Log ERROR (''Error parsing SQL trigger input: '' @ exn_str (malformed_error (JInt 7))),
         Log ERROR (''Raw content: '' @ ''7'')]"
      by blast
    moreover from w6 have "fst (SqlTriggerBinding_main sample_loads no_repr ''7'') = ReturnedNone"
      by blast
    ultimately show ?thesis by (simp add: prod_eq_iff)
  qed
  from r1 r2 r3 r4 r5 r6 show ?thesis by simp
qed

end
